theory Spec2Isabelle
  imports Complex_Main "HOL-Library.Char_ord" "HOL-Library.List_Lexorder"
    "HOL-Library.Product_Lexorder" "HOL-Library.Sublist"
begin

section \<open>Strings and the SQL fragment the tools use\<close>

text \<open>
  The location resolver (\<^verbatim>\<open>tools/lookup.js\<close>) and the ranking engine
  (\<^verbatim>\<open>rankAreasByMetric\<close>) are thin layers over SQL text sent to the embedded engine.
  The embedding gives every query its relational meaning on tables held as lists of rows:
  \<^item> \<^verbatim>\<open>WHERE\<close> is \<open>filter\<close>, \<^verbatim>\<open>LIMIT n\<close> is \<open>take n\<close>,
    \<^verbatim>\<open>COUNT(*)\<close> is \<open>length\<close>;
  \<^item> \<^verbatim>\<open>ORDER BY\<close> is the stable insertion sort \<open>sort_key\<close>: SQL leaves the
    order of rows with equal keys open, the embedding fixes it as the storage order;
  \<^item> \<^verbatim>\<open>GROUP BY\<close> lists each group once (\<open>remdups\<close>), \<^verbatim>\<open>SUM\<close> is \<open>sum_list\<close>;
  \<^item> \<^verbatim>\<open>LIKE\<close> is matched with its two wildcards, \<^verbatim>\<open>%\<close> and \<^verbatim>\<open>_\<close>, and with no
    escape character, whether the pattern is bound as a parameter or spliced into the
    text; \<^verbatim>\<open>ILIKE\<close> is \<^verbatim>\<open>LIKE\<close> on the lower-cased operands.
  Strings are ASCII byte strings. Columns are not null; numbers of type DOUBLE and FLOAT
  are exact rationals. Every query completes: a timeout or a failure of the engine is
  not part of the embedding, except for the empty id lists of \<^verbatim>\<open>rankAreasByMetric\<close>.
  Where \<^verbatim>\<open>rankAreasByMetric\<close> splices a request string between quotes, the
  embedding gives the meaning of the text for strings without a quote character. A limit
  is a natural number; \<open>searchLocations\<close> and \<open>listGeographies\<close> take theirs
  after the default (20 and 100) has been filled in.
\<close>

definition is_digit :: "char \<Rightarrow> bool" where
  "is_digit c = (c \<in> set ''0123456789'')"

definition is_space :: "char \<Rightarrow> bool" where
  \<comment> \<open>the ASCII white space that \<^verbatim>\<open>String.prototype.trim\<close> strips: TAB, LF, VT, FF, CR, SPACE\<close>
  "is_space c = (c \<in> set [CHR 0x09, CHR 0x0A, CHR 0x0B, CHR 0x0C, CHR 0x0D, CHR 0x20])"

definition trim :: "string \<Rightarrow> string" where
  "trim s = rev (dropWhile is_space (rev (dropWhile is_space s)))"

definition lower_char :: "char \<Rightarrow> char" where
  "lower_char c =
     (case map_of (zip ''ABCDEFGHIJKLMNOPQRSTUVWXYZ'' ''abcdefghijklmnopqrstuvwxyz'') c of
        Some d \<Rightarrow> d
      | None \<Rightarrow> c)"

definition lower :: "string \<Rightarrow> string" where
  "lower s = map lower_char s"

text \<open>\<open>sql_like s p\<close> is \<^verbatim>\<open>s LIKE p\<close>: \<^verbatim>\<open>%\<close> stands for any run of characters,
  \<^verbatim>\<open>_\<close> for any one character.\<close>

fun sql_like :: "string \<Rightarrow> string \<Rightarrow> bool" where
  "sql_like [] [] = True"
| "sql_like (c # s) [] = False"
| "sql_like [] (p # ps) = (p = CHR ''%'' \<and> sql_like [] ps)"
| "sql_like (c # s) (p # ps) =
     (if p = CHR ''%'' then sql_like (c # s) ps \<or> sql_like s (p # ps)
      else (p = CHR ''_'' \<or> p = c) \<and> sql_like s ps)"

definition sql_ilike :: "string \<Rightarrow> string \<Rightarrow> bool" where
  "sql_ilike s p = sql_like (lower s) (lower p)"

definition sql_substring :: "string \<Rightarrow> nat \<Rightarrow> nat \<Rightarrow> string" where
  \<comment> \<open>\<^verbatim>\<open>SUBSTRING(s, start, len)\<close>, \<open>start\<close> counted from 1\<close>
  "sql_substring s start len = take len (drop (start - 1) s)"

fun str_includes :: "string \<Rightarrow> string \<Rightarrow> bool" where
  \<comment> \<open>\<^verbatim>\<open>s.includes(p)\<close>\<close>
  "str_includes [] p = (p = [])"
| "str_includes (c # s) p = (prefix p (c # s) \<or> str_includes s p)"

definition has_wildcard :: "string \<Rightarrow> bool" where
  "has_wildcard p = (CHR ''%'' \<in> set p \<or> CHR ''_'' \<in> set p)"

section \<open>The tables\<close>

text \<open>\<^verbatim>\<open>json_db.tiger_geometries\<close>: one row per area. The boundary \<open>t_geom\<close> is kept
  abstract; \<^verbatim>\<open>ST_Contains\<close> of the engine's spatial extension is a parameter of
  \<open>lookupLocation\<close>.\<close>

record 'g tiger_row =
  t_geo_id :: string
  t_name :: string
  t_geom :: 'g

text \<open>\<^verbatim>\<open>json_db.geo_lookup\<close>; \<open>g_labels_data\<close> is the JSON column, carried through as it is.\<close>

record 'j geo_lookup_row =
  g_geo_id :: string
  g_title :: string
  g_universe :: string
  g_labels_data :: 'j

text \<open>\<^verbatim>\<open>pct_db.table_metadata\<close>.\<close>

record metadata_row =
  m_table_id :: string
  m_unique_id :: string
  m_label :: string
  m_title :: string

text \<open>\<^verbatim>\<open>pct_db.acs_with_percentiles\<close>.\<close>

record acs_row =
  p_uid :: string
  p_geo_id :: string
  p_estimate :: int
  p_summary_level :: string
  p_state_fips :: string
  p_national_percentile :: rat

section \<open>\<^verbatim>\<open>types.js\<close>\<close>

definition SUMMARY_LEVELS :: "(string \<times> string) list" where
  "SUMMARY_LEVELS =
     [(''040'', ''state''), (''050'', ''county''), (''140'', ''tract''),
      (''150'', ''block_group''), (''310'', ''metro''), (''860'', ''zip'')]"

definition SUMMARY_LEVEL_NAMES :: "(string \<times> string) list" where
  "SUMMARY_LEVEL_NAMES =
     [(''state'', ''040''), (''county'', ''050''), (''tract'', ''140''),
      (''block_group'', ''150''), (''metro'', ''310''), (''zip'', ''860'')]"

section \<open>\<^verbatim>\<open>tools/lookup.js\<close>\<close>

record geo_name =
  geo_id :: string
  name :: string



definition getSummaryLevel :: "string \<Rightarrow> string" where
  "getSummaryLevel geoId = take 3 geoId"

definition levelCodeOf :: "string \<Rightarrow> string" where
  \<comment> \<open>\<^verbatim>\<open>SUMMARY_LEVEL_NAMES[summaryLevel] || summaryLevel\<close>, for the six names of
      the table (a property name that every object inherits is not a level name)\<close>
  "levelCodeOf summaryLevel =
     (case map_of SUMMARY_LEVEL_NAMES summaryLevel of Some c \<Rightarrow> c | None \<Rightarrow> summaryLevel)"

definition name_matches :: "string \<Rightarrow> string option \<Rightarrow> 'g tiger_row \<Rightarrow> bool" where
  \<comment> \<open>\<^verbatim>\<open>name ILIKE '%' || ? || '%'\<close> and, with a level,
      \<^verbatim>\<open>geo_id LIKE ? || '%'\<close>: the \<^verbatim>\<open>WHERE\<close> clause shared by
      \<open>searchLocations\<close> and the name search of \<open>resolveLocation\<close>\<close>
  "name_matches trimmed summaryLevel t =
     (sql_ilike (t_name t) (''%'' @ trimmed @ ''%'') \<and>
      (case summaryLevel of
         None \<Rightarrow> True
       | Some l \<Rightarrow> if l = [] then True else sql_like (t_geo_id t) (levelCodeOf l @ ''%'')))"


definition resolve_priority :: "string \<Rightarrow> nat" where
  \<comment> \<open>the \<^verbatim>\<open>CASE\<close> of \<open>resolveLocation\<close>\<close>
  "resolve_priority g =
     (if sql_like g ''040%'' then 1
      else if sql_like g ''310%'' then 2
      else if sql_like g ''050%'' then 3
      else 4)"


definition resolve_order :: "'g tiger_row \<Rightarrow> nat \<times> nat" where
  \<comment> \<open>\<^verbatim>\<open>ORDER BY CASE ... END, LENGTH(name)\<close>\<close>
  "resolve_order t = (resolve_priority (t_geo_id t), length (t_name t))"



definition resolve_candidates :: "'g tiger_row list \<Rightarrow> string \<Rightarrow> string option \<Rightarrow> 'g tiger_row list" where
  \<comment> \<open>the ranked rows of the name search of \<open>resolveLocation\<close> before \<^verbatim>\<open>LIMIT 1\<close>\<close>
  "resolve_candidates tiger trimmed summaryLevel =
     sort_key resolve_order (filter (name_matches trimmed summaryLevel) tiger)"


definition is_zip5 :: "string \<Rightarrow> bool" where
  \<comment> \<open>\<^verbatim>\<open>/^\d{5}$/\<close>\<close>
  "is_zip5 s = (length s = 5 \<and> list_all is_digit s)"

definition looks_like_geo_id :: "string \<Rightarrow> bool" where
  \<comment> \<open>\<^verbatim>\<open>/^\d/.test(trimmed) && trimmed.includes('US')\<close>\<close>
  "looks_like_geo_id s = ((case s of [] \<Rightarrow> False | c # _ \<Rightarrow> is_digit c) \<and> str_includes s ''US'')"

definition resolve_by_name ::
  "'g tiger_row list \<Rightarrow> string \<Rightarrow> string option \<Rightarrow> geo_name option" where
  \<comment> \<open>the name search of \<open>resolveLocation\<close>: the ranked rows, \<^verbatim>\<open>LIMIT 1\<close>,
      and \<^verbatim>\<open>nameResults[0]\<close> when there is one\<close>
  "resolve_by_name tiger trimmed summaryLevel =
     (case take 1 (resolve_candidates tiger trimmed summaryLevel) of
        r # _ \<Rightarrow> Some \<lparr>geo_id = t_geo_id r, name = t_name r\<rparr>
      | [] \<Rightarrow> None)"

definition resolveLocation ::
  "'g tiger_row list \<Rightarrow> string \<Rightarrow> string option \<Rightarrow> geo_name option" where
  "resolveLocation tiger input summaryLevel =
     (let trimmed = trim input;
          direct = (if looks_like_geo_id trimmed
                    then filter (\<lambda>t. t_geo_id t = trimmed) tiger else [])
      in case direct of
           r # _ \<Rightarrow> Some \<lparr>geo_id = t_geo_id r, name = t_name r\<rparr>
         | [] \<Rightarrow>
             (let geoId = ''860Z200US'' @ trimmed;
                  zip = (if is_zip5 trimmed
                         then filter (\<lambda>t. t_geo_id t = geoId) tiger else [])
              in case zip of
                   _ # _ \<Rightarrow> Some \<lparr>geo_id = geoId, name = trimmed\<rparr>
                 | [] \<Rightarrow> resolve_by_name tiger trimmed summaryLevel))"

record list_result =
  lg_summary_level :: string
  lg_summary_level_name :: string
  lg_parent_geo_id :: "string option"
  lg_results :: "geo_name list"
  lg_total_count :: nat

definition js_slice_last2 :: "string \<Rightarrow> string" where
  \<comment> \<open>\<^verbatim>\<open>s.slice(-2)\<close>: the last two characters, the whole string when it is shorter\<close>
  "js_slice_last2 s = drop (length s - 2) s"

definition canonical_geo_id :: "string \<Rightarrow> bool" where
  \<comment> \<open>\<^verbatim>\<open>geo_id ~ '^[0-9]{3}0+US[0-9]+$'\<close>: three digits, a run of one or more
      \<^verbatim>\<open>0\<close>, \<^verbatim>\<open>US\<close>, one or more digits up to the end. The run of \<^verbatim>\<open>0\<close> is
      followed by \<^verbatim>\<open>U\<close>, so it is the longest one.\<close>
  "canonical_geo_id g =
     (let lvl = take 3 g;
          zeros = takeWhile (\<lambda>c. c = CHR ''0'') (drop 3 g);
          rest = dropWhile (\<lambda>c. c = CHR ''0'') (drop 3 g)
      in length lvl = 3 \<and> list_all is_digit lvl \<and> zeros \<noteq> [] \<and> take 2 rest = ''US''
         \<and> drop 2 rest \<noteq> [] \<and> list_all is_digit (drop 2 rest))"

definition list_matches :: "string \<Rightarrow> string option \<Rightarrow> 'g tiger_row \<Rightarrow> bool" where
  \<comment> \<open>the \<^verbatim>\<open>WHERE\<close> clause of \<open>listGeographies\<close>:
      \<^verbatim>\<open>geo_id LIKE ?\<close> with \<^verbatim>\<open>levelCode + '%'\<close>, with a parent
      \<^verbatim>\<open>geo_id LIKE '%US' || ?\<close> with \<^verbatim>\<open>parentStateFips + '%'\<close>, and the
      canonical filter\<close>
  "list_matches levelCode parentGeoId t =
     (sql_like (t_geo_id t) (levelCode @ ''%'') \<and>
      (case parentGeoId of
         None \<Rightarrow> True
       | Some parent \<Rightarrow>
           if parent = [] then True
           else sql_like (t_geo_id t) (''%US'' @ (js_slice_last2 parent @ ''%''))) \<and>
      canonical_geo_id (t_geo_id t))"

definition listGeographies ::
  "'g tiger_row list \<Rightarrow> string \<Rightarrow> string option \<Rightarrow> nat \<Rightarrow> list_result" where
  "listGeographies tiger summaryLevel parentGeoId limit =
     (let levelCode = levelCodeOf summaryLevel;
          levelName = (case map_of SUMMARY_LEVELS levelCode of
                         Some n \<Rightarrow> n | None \<Rightarrow> summaryLevel);
          results = take limit
                      (sort_key t_name (filter (list_matches levelCode parentGeoId) tiger));
          cnt = length (filter (list_matches levelCode parentGeoId) tiger)
      in \<lparr>lg_summary_level = levelCode,
          lg_summary_level_name = levelName,
          lg_parent_geo_id = parentGeoId,
          lg_results = map (\<lambda>row. \<lparr>geo_id = t_geo_id row, name = t_name row\<rparr>) results,
          lg_total_count = cnt\<rparr>)"

record 'j table_data =
  d_table_id :: string
  d_title :: string
  d_universe :: string
  d_labels_data :: 'j

record 'j lookup_result =
  l_geo_id :: string
  l_name :: string
  l_summary_level :: string
  l_data :: "'j table_data list"

definition lookup_priority :: "string \<Rightarrow> nat" where
  \<comment> \<open>the \<^verbatim>\<open>CASE\<close> of \<open>lookupLocation\<close>\<close>
  "lookup_priority g =
     (if sql_like g ''150%'' then 1
      else if sql_like g ''140%'' then 2
      else if sql_like g ''860%'' then 3
      else if sql_like g ''050%'' then 4
      else if sql_like g ''310%'' then 5
      else if sql_like g ''040%'' then 6
      else 7)"

definition table_filter :: "metadata_row list \<Rightarrow> string list option \<Rightarrow> 'j geo_lookup_row \<Rightarrow> bool" where
  \<comment> \<open>with \<^verbatim>\<open>tables && tables.length > 0\<close>:
      \<^verbatim>\<open>g.title IN (SELECT DISTINCT title FROM pct_db.table_metadata WHERE table_id IN (...))\<close>\<close>
  "table_filter table_metadata tables g =
     (case tables of
        None \<Rightarrow> True
      | Some ts \<Rightarrow>
          if ts = [] then True
          else g_title g \<in> set (map m_title (filter (\<lambda>m. m_table_id m \<in> set ts) table_metadata)))"

definition data_rows ::
  "metadata_row list \<Rightarrow> 'j geo_lookup_row list \<Rightarrow> string \<Rightarrow> string list option
     \<Rightarrow> (string \<times> string \<times> 'j) list" where
  \<comment> \<open>\<^verbatim>\<open>SELECT DISTINCT g.title, g.universe, g.labels_data FROM json_db.geo_lookup g
      WHERE g.geo_id = ? ...\<close>, before \<^verbatim>\<open>LIMIT 100\<close>\<close>
  "data_rows table_metadata geo_lookup geoId tables =
     remdups (map (\<lambda>g. (g_title g, g_universe g, g_labels_data g))
       (filter (\<lambda>g. g_geo_id g = geoId \<and> table_filter table_metadata tables g) geo_lookup))"

definition to_table_data :: "string \<times> string \<times> 'j \<Rightarrow> 'j table_data" where
  \<comment> \<open>\<^verbatim>\<open>row.title.split(' ')[0] || 'UNKNOWN'\<close> is the table id\<close>
  "to_table_data row =
     (case row of (title, universe, labels) \<Rightarrow>
        \<lparr>d_table_id = (let w = takeWhile (\<lambda>c. c \<noteq> CHR '' '') title
                        in if w = [] then ''UNKNOWN'' else w),
         d_title = title, d_universe = universe, d_labels_data = labels\<rparr>)"

definition containing ::
  "('g \<Rightarrow> rat \<Rightarrow> rat \<Rightarrow> bool) \<Rightarrow> 'g tiger_row list \<Rightarrow> rat \<Rightarrow> rat \<Rightarrow> 'g tiger_row list" where
  \<comment> \<open>\<^verbatim>\<open>WHERE ST_Contains(geom, ST_Point(?, ?))\<close> with \<^verbatim>\<open>[longitude, latitude]\<close>\<close>
  "containing st_contains tiger latitude longitude =
     filter (\<lambda>t. st_contains (t_geom t) longitude latitude) tiger"

definition lookupLocation ::
  "('g \<Rightarrow> rat \<Rightarrow> rat \<Rightarrow> bool) \<Rightarrow> 'g tiger_row list \<Rightarrow> 'j geo_lookup_row list
     \<Rightarrow> metadata_row list \<Rightarrow> rat \<Rightarrow> rat \<Rightarrow> string list option \<Rightarrow> 'j lookup_result option" where
  "lookupLocation st_contains tiger geo_lookup table_metadata latitude longitude tables =
     (let geoResults = sort_key (\<lambda>t. lookup_priority (t_geo_id t))
                         (containing st_contains tiger latitude longitude)
      in case geoResults of
           [] \<Rightarrow> None
         | geo # _ \<Rightarrow>
             (let summaryLevel = getSummaryLevel (t_geo_id geo);
                  dataResults = take 100
                    (data_rows table_metadata geo_lookup (t_geo_id geo) tables)
              in Some \<lparr>l_geo_id = t_geo_id geo, l_name = t_name geo,
                       l_summary_level = summaryLevel,
                       l_data = map to_table_data dataResults\<rparr>))"

section \<open>\<^verbatim>\<open>rankAreasByMetric\<close>\<close>

datatype id_arg = One string | Many "string list"

text \<open>The request; \<open>None\<close> is a property left out, which takes its default.\<close>

record rank_params =
  metric_id :: id_arg
  denominator_id :: "id_arg option"
  order :: "string option"
  percentile_min :: "rat option"
  percentile_max :: "rat option"
  summary_level :: "string option"
  state_fips :: "string option"
  population_group :: "string option"
  min_population :: "rat option"
  limit :: "nat option"

record rank_row =
  r_geo_id :: string
  r_name :: string
  r_value :: "rat option"
  r_unit :: string
  r_national_percentile :: "rat option"

record rank_result =
  metric :: string
  results :: "rank_row list"
  total_matches :: nat

datatype rank_error = ExecutionFailure

definition metricIdsOf :: "id_arg \<Rightarrow> string list" where
  \<comment> \<open>\<^verbatim>\<open>Array.isArray(metric_id) ? metric_id : [metric_id]\<close>\<close>
  "metricIdsOf a = (case a of One s \<Rightarrow> [s] | Many l \<Rightarrow> l)"

definition denominatorIdsOf :: "id_arg option \<Rightarrow> string list option" where
  \<comment> \<open>\<^verbatim>\<open>denominator_id ? (Array.isArray(denominator_id) ? ... : [denominator_id]) : null\<close>:
      a missing denominator and the empty string are falsy, every array is truthy\<close>
  "denominatorIdsOf a =
     (case a of
        None \<Rightarrow> None
      | Some (One s) \<Rightarrow> if s = [] then None else Some [s]
      | Some (Many l) \<Rightarrow> Some l)"

definition isCompoundOf :: "string list \<Rightarrow> string list option \<Rightarrow> bool" where
  "isCompoundOf metricIds denominatorIds =
     (length metricIds > 1 \<or> (case denominatorIds of None \<Rightarrow> False | Some d \<Rightarrow> length d > 1))"

definition group_ok :: "string \<Rightarrow> string \<Rightarrow> bool" where
  \<comment> \<open>\<open>buildPopulationGroupFilter\<close>: no condition for a falsy group, else
      \<^verbatim>\<open>AND SUBSTRING(geo_id, 4, 4) = '...'\<close>\<close>
  "group_ok pg g = (pg = [] \<or> sql_substring g 4 4 = pg)"

definition level_like :: "string option \<Rightarrow> string \<Rightarrow> bool" where
  \<comment> \<open>\<^verbatim>\<open>summary_level ? `AND geo_id LIKE '${summary_level}%'` : ''\<close>\<close>
  "level_like sl g =
     (case sl of
        None \<Rightarrow> True
      | Some l \<Rightarrow> if l = [] then True else sql_like g (l @ ''%''))"

definition state_like :: "string option \<Rightarrow> string \<Rightarrow> bool" where
  \<comment> \<open>\<^verbatim>\<open>state_fips ? `AND geo_id LIKE '%US${state_fips}%'` : ''\<close>\<close>
  "state_like sf g =
     (case sf of
        None \<Rightarrow> True
      | Some f \<Rightarrow> if f = [] then True else sql_like g (''%US'' @ f @ ''%''))"

definition eq_filter :: "string option \<Rightarrow> string \<Rightarrow> bool" where
  \<comment> \<open>\<^verbatim>\<open>summary_level ? 'AND p.summary_level = ?' : ''\<close>, and the same for the state\<close>
  "eq_filter a column = (case a of None \<Rightarrow> True | Some v \<Rightarrow> if v = [] then True else column = v)"

definition sql_round2 :: "rat \<Rightarrow> rat" where
  \<comment> \<open>\<^verbatim>\<open>ROUND(x, 2)\<close>: to the nearest hundredth, halves away from zero\<close>
  "sql_round2 x =
     (if 0 \<le> x then of_int \<lfloor>x * 100 + 1 / 2\<rfloor> / 100
      else - (of_int \<lfloor>- x * 100 + 1 / 2\<rfloor> / 100))"

definition rate_value :: "int \<Rightarrow> int \<Rightarrow> rat option" where
  \<comment> \<open>\<^verbatim>\<open>ROUND(n.num_total * 100.0 / d.denom_total, 2)\<close>; a zero denominator gives no
      number (NULL, or an infinity or NaN where the engine divides as IEEE 754 does)\<close>
  "rate_value num_total denom_total =
     (if denom_total = 0 then None
      else Some (sql_round2 (of_int num_total * 100 / of_int denom_total)))"

definition group_sums :: "acs_row list \<Rightarrow> (string \<times> int) list" where
  \<comment> \<open>\<^verbatim>\<open>SELECT geo_id, SUM(estimate) FROM ... GROUP BY geo_id\<close>\<close>
  "group_sums rows =
     map (\<lambda>g. (g, sum_list (map p_estimate (filter (\<lambda>p. p_geo_id p = g) rows))))
       (remdups (map p_geo_id rows))"

definition left_join_name :: "'g tiger_row list \<Rightarrow> string \<Rightarrow> string option list" where
  \<comment> \<open>\<^verbatim>\<open>LEFT JOIN json_db.tiger_geometries t ON ... = t.geo_id\<close>: the names of the
      matching areas, one NULL when there is none\<close>
  "left_join_name tiger g =
     (case filter (\<lambda>t. t_geo_id t = g) tiger of
        [] \<Rightarrow> [None]
      | ts \<Rightarrow> map (\<lambda>t. Some (t_name t)) ts)"

definition coalesce :: "string option \<Rightarrow> string \<Rightarrow> string" where
  "coalesce a b = (case a of None \<Rightarrow> b | Some x \<Rightarrow> x)"

definition value_key :: "string \<Rightarrow> rat option \<Rightarrow> bool \<times> rat" where
  \<comment> \<open>\<^verbatim>\<open>ORDER BY value ${order === 'desc' ? 'DESC' : 'ASC'}\<close>; rows with no value
      come last\<close>
  "value_key ord v =
     (case v of
        None \<Rightarrow> (True, 0)
      | Some x \<Rightarrow> (False, if ord = ''desc'' then - x else x))"

definition rate_where ::
  "rat \<Rightarrow> string \<Rightarrow> string option \<Rightarrow> string option \<Rightarrow> (string \<times> int) \<times> (string \<times> int) \<Rightarrow> bool" where
  \<comment> \<open>\<^verbatim>\<open>WHERE d.denom_total >= ?\<close> and the filters on \<^verbatim>\<open>n.geo_id\<close>\<close>
  "rate_where min_pop pg sl sf nd =
     (case nd of (n, d) \<Rightarrow>
        min_pop \<le> of_int (snd d) \<and> group_ok pg (fst n) \<and> level_like sl (fst n)
        \<and> state_like sf (fst n))"

definition rate_join :: "acs_row list \<Rightarrow> string list \<Rightarrow> string list
    \<Rightarrow> ((string \<times> int) \<times> (string \<times> int)) list" where
  \<comment> \<open>\<^verbatim>\<open>FROM numerators n JOIN denominators d ON n.geo_id = d.geo_id\<close>\<close>
  "rate_join acs metricIds denominatorIds =
     (let numerators = group_sums (filter (\<lambda>p. p_uid p \<in> set metricIds) acs);
          denominators = group_sums (filter (\<lambda>p. p_uid p \<in> set denominatorIds) acs)
      in concat (map (\<lambda>n. map (\<lambda>d. (n, d)) (filter (\<lambda>d. fst n = fst d) denominators))
           numerators))"

definition rate_rows :: "'g tiger_row list \<Rightarrow> acs_row list \<Rightarrow> string list \<Rightarrow> string list
    \<Rightarrow> rat \<Rightarrow> string \<Rightarrow> string option \<Rightarrow> string option \<Rightarrow> string \<Rightarrow> rank_row list" where
  \<comment> \<open>the rate query before \<^verbatim>\<open>LIMIT\<close>\<close>
  "rate_rows tiger acs metricIds denominatorIds min_pop pg sl sf ord =
     sort_key (\<lambda>r. value_key ord (r_value r))
       (map (\<lambda>((n, d), t).
               \<lparr>r_geo_id = fst n, r_name = coalesce t (fst n),
                r_value = rate_value (snd n) (snd d), r_unit = ''percent'',
                r_national_percentile = None\<rparr>)
          (filter (\<lambda>(nd, t). rate_where min_pop pg sl sf nd)
             (concat (map (\<lambda>nd. map (\<lambda>t. (nd, t)) (left_join_name tiger (fst (fst nd))))
                (rate_join acs metricIds denominatorIds)))))"

definition rate_count :: "acs_row list \<Rightarrow> string list \<Rightarrow> string list
    \<Rightarrow> rat \<Rightarrow> string \<Rightarrow> string option \<Rightarrow> string option \<Rightarrow> nat" where
  \<comment> \<open>the count query of the rate branch: the same join and filters, no join with the
      areas' names\<close>
  "rate_count acs metricIds denominatorIds min_pop pg sl sf =
     length (filter (rate_where min_pop pg sl sf) (rate_join acs metricIds denominatorIds))"

definition sum_where :: "string list \<Rightarrow> string \<Rightarrow> string option \<Rightarrow> string option \<Rightarrow> acs_row \<Rightarrow> bool" where
  \<comment> \<open>\<^verbatim>\<open>WHERE p.uid IN (...)\<close> and the filters on \<^verbatim>\<open>p.geo_id\<close>\<close>
  "sum_where metricIds pg sl sf p =
     (p_uid p \<in> set metricIds \<and> group_ok pg (p_geo_id p) \<and> level_like sl (p_geo_id p)
      \<and> state_like sf (p_geo_id p))"

definition sum_rows :: "'g tiger_row list \<Rightarrow> acs_row list \<Rightarrow> string list
    \<Rightarrow> string \<Rightarrow> string option \<Rightarrow> string option \<Rightarrow> string \<Rightarrow> rank_row list" where
  \<comment> \<open>the sum query before \<^verbatim>\<open>LIMIT\<close>: \<^verbatim>\<open>GROUP BY p.geo_id, t.name\<close>\<close>
  "sum_rows tiger acs metricIds pg sl sf ord =
     (let joined = filter (\<lambda>(p, t). sum_where metricIds pg sl sf p)
            (concat (map (\<lambda>p. map (\<lambda>t. (p, t)) (left_join_name tiger (p_geo_id p))) acs));
          groups = remdups (map (\<lambda>(p, t). (p_geo_id p, t)) joined)
      in sort_key (\<lambda>r. value_key ord (r_value r))
           (map (\<lambda>(g, t).
                   \<lparr>r_geo_id = g, r_name = coalesce t g,
                    r_value = Some (of_int (sum_list (map (\<lambda>(p, t'). p_estimate p)
                       (filter (\<lambda>(p, t'). p_geo_id p = g \<and> t' = t) joined)))),
                    r_unit = ''count'', r_national_percentile = None\<rparr>)
              groups))"

definition sum_count :: "acs_row list \<Rightarrow> string list \<Rightarrow> string \<Rightarrow> string option \<Rightarrow> string option \<Rightarrow> nat" where
  \<comment> \<open>\<^verbatim>\<open>SELECT COUNT(DISTINCT geo_id)\<close>\<close>
  "sum_count acs metricIds pg sl sf =
     length (remdups (map p_geo_id (filter (sum_where metricIds pg sl sf) acs)))"

definition direct_where :: "string \<Rightarrow> rat \<Rightarrow> rat \<Rightarrow> string \<Rightarrow> string option \<Rightarrow> string option
    \<Rightarrow> acs_row \<Rightarrow> bool" where
  \<comment> \<open>\<^verbatim>\<open>WHERE p.uid = ? AND p.national_percentile >= ? AND p.national_percentile <= ?\<close>,
      the group filter, and equality on the level and state columns\<close>
  "direct_where metricId pmin pmax pg sl sf p =
     (p_uid p = metricId \<and> pmin \<le> p_national_percentile p \<and> p_national_percentile p \<le> pmax
      \<and> group_ok pg (p_geo_id p) \<and> eq_filter sl (p_summary_level p)
      \<and> eq_filter sf (p_state_fips p))"

definition direct_rows :: "'g tiger_row list \<Rightarrow> acs_row list \<Rightarrow> (acs_row \<Rightarrow> bool) \<Rightarrow> string
    \<Rightarrow> rank_row list" where
  \<comment> \<open>the single-metric query before \<^verbatim>\<open>LIMIT\<close>, for a \<^verbatim>\<open>WHERE\<close> clause\<close>
  "direct_rows tiger acs wh ord =
     sort_key (\<lambda>r. value_key ord (r_national_percentile r))
       (map (\<lambda>(p, t).
               \<lparr>r_geo_id = p_geo_id p, r_name = coalesce t (p_geo_id p),
                r_value = Some (of_int (p_estimate p)), r_unit = ''count'',
                r_national_percentile = Some (p_national_percentile p)\<rparr>)
          (filter (\<lambda>(p, t). wh p)
             (concat (map (\<lambda>p. map (\<lambda>t. (p, t)) (left_join_name tiger (p_geo_id p))) acs))))"

function string_of_nat :: "nat \<Rightarrow> string" where
  "string_of_nat n =
     (if n < 10 then [''0123456789'' ! n]
      else string_of_nat (n div 10) @ [''0123456789'' ! (n mod 10)])"
  by pat_completeness auto
termination
  by (relation "measure id") auto

fun join_comma :: "string list \<Rightarrow> string" where
  \<comment> \<open>\<^verbatim>\<open>.join(', ')\<close>\<close>
  "join_comma [] = []"
| "join_comma [x] = x"
| "join_comma (x # y # ys) = x @ '', '' @ join_comma (y # ys)"

definition metricLabelOf :: "metadata_row list \<Rightarrow> string list \<Rightarrow> bool \<Rightarrow> string" where
  "metricLabelOf table_metadata metricIds isCompound =
     (if isCompound
      then ''Sum of '' @ string_of_nat (length metricIds) @ '' metrics ('' @
             join_comma (take 3 metricIds) @ (if length metricIds > 3 then ''...'' else []) @ '')''
      else (case filter (\<lambda>m. m_unique_id m = hd metricIds) table_metadata of
              m # _ \<Rightarrow> m_title m @ '': '' @ m_label m
            | [] \<Rightarrow> hd metricIds))"

text \<open>The defaults of the destructured request:
  \<^verbatim>\<open>order = 'desc', percentile_min = 0, percentile_max = 1, population_group = '0000',
  min_population = 10000, limit = 10\<close>.\<close>

definition orderOf :: "rank_params \<Rightarrow> string" where
  "orderOf params = (case order params of None \<Rightarrow> ''desc'' | Some x \<Rightarrow> x)"

definition percentileMinOf :: "rank_params \<Rightarrow> rat" where
  "percentileMinOf params = (case percentile_min params of None \<Rightarrow> 0 | Some x \<Rightarrow> x)"

definition percentileMaxOf :: "rank_params \<Rightarrow> rat" where
  "percentileMaxOf params = (case percentile_max params of None \<Rightarrow> 1 | Some x \<Rightarrow> x)"

definition populationGroupOf :: "rank_params \<Rightarrow> string" where
  "populationGroupOf params = (case population_group params of None \<Rightarrow> ''0000'' | Some x \<Rightarrow> x)"

definition minPopulationOf :: "rank_params \<Rightarrow> rat" where
  "minPopulationOf params = (case min_population params of None \<Rightarrow> 10000 | Some x \<Rightarrow> x)"

definition limitOf :: "rank_params \<Rightarrow> nat" where
  "limitOf params = (case limit params of None \<Rightarrow> 10 | Some x \<Rightarrow> x)"

text \<open>
  An empty array of ids leaves the text \<^verbatim>\<open>IN ()\<close> in the query, or
  \<^verbatim>\<open>undefined\<close> as the first parameter: the engine refuses the query, and the
  failure reaches the caller.
\<close>

definition rankAreasByMetric ::
  "'g tiger_row list \<Rightarrow> acs_row list \<Rightarrow> metadata_row list \<Rightarrow> rank_params
     \<Rightarrow> rank_error + rank_result" where
  "rankAreasByMetric tiger acs table_metadata params =
     (let ord = orderOf params;
          pmin = percentileMinOf params;
          pmax = percentileMaxOf params;
          pg = populationGroupOf params;
          min_pop = minPopulationOf params;
          lim = limitOf params;
          sl = summary_level params;
          sf = state_fips params;
          metricIds = metricIdsOf (metric_id params);
          denominatorIds = denominatorIdsOf (denominator_id params);
          isCompound = isCompoundOf metricIds denominatorIds;
          metricLabel = metricLabelOf table_metadata metricIds isCompound
      in if metricIds = [] \<or> denominatorIds = Some [] then Inl ExecutionFailure
         else
           (case denominatorIds of
              Some dIds \<Rightarrow>
                Inr \<lparr>metric = metricLabel,
                     results = take lim (rate_rows tiger acs metricIds dIds min_pop pg sl sf ord),
                     total_matches = rate_count acs metricIds dIds min_pop pg sl sf\<rparr>
            | None \<Rightarrow>
                if isCompound
                then Inr \<lparr>metric = metricLabel,
                          results = take lim (sum_rows tiger acs metricIds pg sl sf ord),
                          total_matches = sum_count acs metricIds pg sl sf\<rparr>
                else Inr \<lparr>metric = metricLabel,
                          results = take lim
                            (direct_rows tiger acs
                               (direct_where (hd metricIds) pmin pmax pg sl sf) ord),
                          total_matches = length
                            (filter (direct_where (hd metricIds) pmin pmax pg sl sf) acs)\<rparr>))"

section \<open>What the specification compares the ranking with\<close>



text \<open>The unfiltered percentile query on one metric: the single-metric query of
  \<open>rankAreasByMetric\<close> with the two conditions on \<^verbatim>\<open>national_percentile\<close> left
  out of the \<^verbatim>\<open>WHERE\<close> clause.\<close>

definition unfiltered_where :: "string \<Rightarrow> string \<Rightarrow> string option \<Rightarrow> string option
    \<Rightarrow> acs_row \<Rightarrow> bool" where
  "unfiltered_where metricId pg sl sf p =
     (p_uid p = metricId \<and> group_ok pg (p_geo_id p) \<and> eq_filter sl (p_summary_level p)
      \<and> eq_filter sf (p_state_fips p))"

definition unfiltered_percentile_query ::
  "'g tiger_row list \<Rightarrow> acs_row list \<Rightarrow> rank_params \<Rightarrow> rank_row list" where
  "unfiltered_percentile_query tiger acs params =
     take (limitOf params)
       (direct_rows tiger acs
          (unfiltered_where (hd (metricIdsOf (metric_id params))) (populationGroupOf params)
             (summary_level params) (state_fips params))
          (orderOf params))"

text \<open>A boundary for examples: the box (west, south, east, north), and a point (x, y).\<close>

definition box_contains :: "rat \<times> rat \<times> rat \<times> rat \<Rightarrow> rat \<Rightarrow> rat \<Rightarrow> bool" where
  "box_contains b x y = (case b of (w, s, e, n) \<Rightarrow> w \<le> x \<and> x \<le> e \<and> s \<le> y \<and> y \<le> n)"

text \<open>A small catalog and a request for examples.\<close>

definition example_acs :: "acs_row list" where
  "example_acs =
   [\<lparr>p_uid = ''A'', p_geo_id = ''0500000US06037'', p_estimate = 300, p_summary_level = ''050'',
      p_state_fips = ''06'', p_national_percentile = 9 / 10\<rparr>,
    \<lparr>p_uid = ''B'', p_geo_id = ''0500000US06037'', p_estimate = 200, p_summary_level = ''050'',
      p_state_fips = ''06'', p_national_percentile = 8 / 10\<rparr>,
    \<lparr>p_uid = ''C'', p_geo_id = ''0500000US06037'', p_estimate = 20000, p_summary_level = ''050'',
      p_state_fips = ''06'', p_national_percentile = 7 / 10\<rparr>,
    \<lparr>p_uid = ''A'', p_geo_id = ''0500000US06001'', p_estimate = 100, p_summary_level = ''050'',
      p_state_fips = ''06'', p_national_percentile = 5 / 10\<rparr>,
    \<lparr>p_uid = ''C'', p_geo_id = ''0500000US06001'', p_estimate = 30000, p_summary_level = ''050'',
      p_state_fips = ''06'', p_national_percentile = 6 / 10\<rparr>,
    \<lparr>p_uid = ''A'', p_geo_id = ''05000A0US06001'', p_estimate = 70, p_summary_level = ''050'',
      p_state_fips = ''06'', p_national_percentile = 4 / 10\<rparr>,
    \<lparr>p_uid = ''C'', p_geo_id = ''05000A0US06001'', p_estimate = 12000, p_summary_level = ''050'',
      p_state_fips = ''06'', p_national_percentile = 3 / 10\<rparr>,
    \<lparr>p_uid = ''A'', p_geo_id = ''0400000US06'', p_estimate = 7000, p_summary_level = ''040'',
      p_state_fips = ''06'', p_national_percentile = 1\<rparr>,
    \<lparr>p_uid = ''C'', p_geo_id = ''0400000US06'', p_estimate = 900000, p_summary_level = ''040'',
      p_state_fips = ''06'', p_national_percentile = 1\<rparr>]"

definition example_tiger :: "unit tiger_row list" where
  "example_tiger =
   [\<lparr>t_geo_id = ''0500000US06037'', t_name = ''Los Angeles County'', t_geom = ()\<rparr>,
    \<lparr>t_geo_id = ''0400000US06'', t_name = ''California'', t_geom = ()\<rparr>]"

definition example_request :: rank_params where
  "example_request =
   \<lparr>metric_id = Many [''A'', ''B''], denominator_id = Some (One ''C''), order = None,
    percentile_min = None, percentile_max = None, summary_level = Some ''050'',
    state_fips = None, population_group = None, min_population = None, limit = None\<rparr>"

section \<open>Properties of the location resolver\<close>

lemma str_includes_digits: "list_all is_digit s \<Longrightarrow> \<not> str_includes s ''US''"
  by (induction s) (auto simp: is_digit_def)

lemma looks_like_geo_id_zip5: "is_zip5 s \<Longrightarrow> \<not> looks_like_geo_id s"
  by (simp add: is_zip5_def looks_like_geo_id_def str_includes_digits)

text \<open>
  C3. A five-digit input (after trimming) whose synthesized ZIP key
  \<^verbatim>\<open>860Z200US\<close> + digits is a key of the catalog resolves to exactly that key, and
  the display name is the five digits, not the catalog's name of the row.
\<close>

theorem resolveLocation_zip:
  assumes "is_zip5 (trim input)"
    and "''860Z200US'' @ trim input \<in> t_geo_id ` set tiger"
  shows "resolveLocation tiger input summaryLevel =
           Some \<lparr>geo_id = ''860Z200US'' @ trim input, name = trim input\<rparr>"
proof -
  from assms(2) obtain r where "r \<in> set tiger" "t_geo_id r = ''860Z200US'' @ trim input"
    by auto
  then have "filter (\<lambda>t. t_geo_id t = ''860Z200US'' @ trim input) tiger \<noteq> []"
    by (auto simp: filter_empty_conv)
  then obtain z zs where "filter (\<lambda>t. t_geo_id t = ''860Z200US'' @ trim input) tiger = z # zs"
    by (cases "filter (\<lambda>t. t_geo_id t = ''860Z200US'' @ trim input) tiger") auto
  with assms(1) show ?thesis
    by (simp add: resolveLocation_def looks_like_geo_id_zip5 Let_def)
qed

theorem resolveLocation_zip_witness:
  "resolveLocation
     [\<lparr>t_geo_id = ''0400000US06'', t_name = ''California'', t_geom = ()\<rparr>,
      \<lparr>t_geo_id = ''860Z200US90210'', t_name = ''Unknown'', t_geom = ()\<rparr>]
     '' 90210 '' (Some ''state'')
   = Some \<lparr>geo_id = ''860Z200US90210'', name = ''90210''\<rparr>"
proof -
  have t: "trim '' 90210 '' = ''90210''"
    by (simp add: trim_def is_space_def)
  have z: "is_zip5 (trim '' 90210 '')"
    unfolding t by (simp add: is_zip5_def is_digit_def)
  have k: "''860Z200US'' @ trim '' 90210 '' \<in> t_geo_id `
      set [\<lparr>t_geo_id = ''0400000US06'', t_name = ''California'', t_geom = ()\<rparr>,
           \<lparr>t_geo_id = ''860Z200US90210'', t_name = ''Unknown'', t_geom = ()\<rparr>]"
    unfolding t by simp
  show ?thesis
    using resolveLocation_zip [OF z k, of "Some ''state''"] unfolding t by simp
qed

subsection \<open>The two orderings of name-search candidates\<close>




lemma hd_sort_key_least:
  fixes f :: "'a \<Rightarrow> 'k::linorder"
  assumes "x \<in> set xs"
  shows "f (hd (sort_key f xs)) \<le> f x"
proof -
  have s: "sorted (map f (sort_key f xs))"
    by (rule sorted_sort_key)
  from assms have m: "x \<in> set (sort_key f xs)"
    by simp
  then obtain y ys where e: "sort_key f xs = y # ys"
    by (cases "sort_key f xs") auto
  with s m show ?thesis
    by auto
qed

lemma hd_sort_key_mem: "xs \<noteq> [] \<Longrightarrow> hd (sort_key f xs) \<in> set xs"
proof -
  assume "xs \<noteq> []"
  then have "sort_key f xs \<noteq> []"
    by (metis length_0_conv length_sort)
  then have "hd (sort_key f xs) \<in> set (sort_key f xs)"
    by (rule hd_in_set)
  then show ?thesis
    by simp
qed







subsection \<open>Listing areas\<close>

lemma takeWhile_eq_replicate:
  "takeWhile (\<lambda>c. c = x) xs = replicate (length (takeWhile (\<lambda>c. c = x) xs)) x"
  by (induction xs) auto

lemma canonical_shape:
  assumes "canonical_geo_id g"
  obtains n d where "drop 3 g = replicate (Suc n) (CHR ''0'') @ CHR ''U'' # CHR ''S'' # d"
    and "d \<noteq> []" and "list_all is_digit d"
proof -
  let ?r = "drop 3 g"
  let ?zs = "takeWhile (\<lambda>c. c = CHR ''0'') ?r" and ?rest = "dropWhile (\<lambda>c. c = CHR ''0'') ?r"
  from assms have z: "?zs \<noteq> []" and u: "take 2 ?rest = ''US''"
    and d: "drop 2 ?rest \<noteq> []" "list_all is_digit (drop 2 ?rest)"
    by (simp_all add: canonical_geo_id_def Let_def)
  from z obtain n where n: "length ?zs = Suc n"
    by (cases "length ?zs") auto
  have zs: "?zs = replicate (Suc n) (CHR ''0'')"
    using takeWhile_eq_replicate [of "CHR ''0''" ?r] n by simp
  have "?rest = take 2 ?rest @ drop 2 ?rest"
    by simp
  with u have rest: "?rest = CHR ''U'' # CHR ''S'' # drop 2 ?rest"
    by simp
  have "?r = ?zs @ ?rest"
    by simp
  with zs rest have "?r = replicate (Suc n) (CHR ''0'') @ CHR ''U'' # CHR ''S'' # drop 2 ?rest"
    by metis
  with d that show thesis
    by blast
qed

text \<open>The matcher accepts exactly the strings of the pattern.\<close>

lemma canonical_geo_id_iff:
  "canonical_geo_id g \<longleftrightarrow>
     (\<exists>l n d. g = l @ replicate (Suc n) (CHR ''0'') @ ''US'' @ d
        \<and> length l = 3 \<and> list_all is_digit l \<and> d \<noteq> [] \<and> list_all is_digit d)"
proof
  assume c: "canonical_geo_id g"
  then obtain n d where r: "drop 3 g = replicate (Suc n) (CHR ''0'') @ CHR ''U'' # CHR ''S'' # d"
    and d: "d \<noteq> []" "list_all is_digit d"
    by (rule canonical_shape)
  from c have l: "length (take 3 g) = 3" "list_all is_digit (take 3 g)"
    by (simp_all add: canonical_geo_id_def Let_def)
  have "g = take 3 g @ drop 3 g"
    by simp
  with r have "g = take 3 g @ replicate (Suc n) (CHR ''0'') @ ''US'' @ d"
    by simp
  with l d show "\<exists>l n d. g = l @ replicate (Suc n) (CHR ''0'') @ ''US'' @ d
        \<and> length l = 3 \<and> list_all is_digit l \<and> d \<noteq> [] \<and> list_all is_digit d"
    by blast
next
  assume "\<exists>l n d. g = l @ replicate (Suc n) (CHR ''0'') @ ''US'' @ d
        \<and> length l = 3 \<and> list_all is_digit l \<and> d \<noteq> [] \<and> list_all is_digit d"
  then obtain l n d where g: "g = l @ replicate (Suc n) (CHR ''0'') @ ''US'' @ d"
    and l: "length l = 3" "list_all is_digit l" and d: "d \<noteq> []" "list_all is_digit d"
    by blast
  from g l have t: "take 3 g = l" and r: "drop 3 g = replicate (Suc n) (CHR ''0'') @ CHR ''U'' # CHR ''S'' # d"
    by simp_all
  have tw: "takeWhile (\<lambda>c. c = CHR ''0'') (drop 3 g) = replicate (Suc n) (CHR ''0'')"
    unfolding r by (subst takeWhile_append2) auto
  have dw: "dropWhile (\<lambda>c. c = CHR ''0'') (drop 3 g) = CHR ''U'' # CHR ''S'' # d"
    unfolding r by (subst dropWhile_append2) auto
  show "canonical_geo_id g"
    unfolding canonical_geo_id_def Let_def tw dw t using l d by simp
qed

lemma canonical_group:
  assumes c: "canonical_geo_id g" and us: "sql_substring g 8 2 = ''US''"
  shows "sql_substring g 4 4 = ''0000''"
proof -
  from c obtain n d where r: "drop 3 g = replicate (Suc n) (CHR ''0'') @ CHR ''U'' # CHR ''S'' # d"
    and d: "d \<noteq> []" "list_all is_digit d"
    by (rule canonical_shape)
  have "drop 7 g = drop 4 (drop 3 g)"
    by simp
  with us r have m: "take 2 (drop 4 (replicate (Suc n) (CHR ''0'') @ CHR ''U'' # CHR ''S'' # d)) = ''US''"
    by (simp add: sql_substring_def)
  consider "n = 0" | "n = 1" | "n = 2" | "n = 3" | "4 \<le> n"
    by arith
  then have n: "n = 3"
  proof cases
    case 1
    with m d show ?thesis
      by (cases d; cases "tl d") (auto simp: is_digit_def numeral_eq_Suc)
  next
    case 2
    with m d show ?thesis
      by (cases d) (auto simp: is_digit_def numeral_eq_Suc)
  next
    case 3
    with m show ?thesis
      by (simp add: numeral_eq_Suc)
  next
    case 4
    then show ?thesis .
  next
    case 5
    then obtain k where "n = 4 + k"
      using nat_le_iff_add by blast
    with m show ?thesis
      by (simp add: numeral_eq_Suc)
  qed
  have "sql_substring g 4 4 = take 4 (drop 3 g)"
    by (simp add: sql_substring_def)
  also have "\<dots> = ''0000''"
    unfolding r n by (simp add: numeral_eq_Suc)
  finally show ?thesis .
qed


text \<open>
  C5. Where every key of the catalog has the format of a geographic key (the marker
  \<^verbatim>\<open>US\<close> after the three characters of the level and the four of the group),
  every key \<open>listGeographies\<close> returns has the group segment \<^verbatim>\<open>0000\<close>, and the
  rows come sorted by display name, ascending.
\<close>

theorem listGeographies_canonical_sorted:
  assumes "\<forall>t \<in> set tiger. sql_substring (t_geo_id t) 8 2 = ''US''"
  shows "(\<forall>r \<in> set (lg_results (listGeographies tiger summaryLevel parentGeoId lmt)).
            sql_substring (geo_id r) 4 4 = ''0000'')
       \<and> sorted (map name (lg_results (listGeographies tiger summaryLevel parentGeoId lmt)))"
proof -
  let ?rows = "filter (list_matches (levelCodeOf summaryLevel) parentGeoId) tiger"
  have res: "lg_results (listGeographies tiger summaryLevel parentGeoId lmt) =
      map (\<lambda>row. \<lparr>geo_id = t_geo_id row, name = t_name row\<rparr>) (take lmt (sort_key t_name ?rows))"
    by (simp add: listGeographies_def Let_def)
  have "sql_substring (t_geo_id t) 4 4 = ''0000''" if "t \<in> set (take lmt (sort_key t_name ?rows))" for t
  proof -
    from that have "t \<in> set (sort_key t_name ?rows)"
      by (rule in_set_takeD)
    then have "t \<in> set tiger" and "canonical_geo_id (t_geo_id t)"
      by (simp_all add: list_matches_def)
    with assms show ?thesis
      by (simp add: canonical_group)
  qed
  then have group: "\<forall>r \<in> set (lg_results (listGeographies tiger summaryLevel parentGeoId lmt)).
      sql_substring (geo_id r) 4 4 = ''0000''"
    unfolding res by auto
  have "map name (lg_results (listGeographies tiger summaryLevel parentGeoId lmt)) =
      take lmt (map t_name (sort_key t_name ?rows))"
    unfolding res by (simp add: take_map comp_def)
  moreover have "sorted (take lmt (map t_name (sort_key t_name ?rows)))"
    by (intro sorted_wrt_take sorted_sort_key)
  ultimately show ?thesis
    using group by simp
qed

lemmas list_eval = listGeographies_def list_matches_def canonical_geo_id_def levelCodeOf_def
  SUMMARY_LEVEL_NAMES_def SUMMARY_LEVELS_def js_slice_last2_def is_digit_def sql_substring_def
  Let_def

theorem listGeographies_canonical_sorted_witness:
  "lg_results (listGeographies
     [\<lparr>t_geo_id = ''0400000US06'', t_name = ''California'', t_geom = ()\<rparr>,
      \<lparr>t_geo_id = ''04000A0US06'', t_name = ''California'', t_geom = ()\<rparr>,
      \<lparr>t_geo_id = ''0500000US06037'', t_name = ''Los Angeles County'', t_geom = ()\<rparr>,
      \<lparr>t_geo_id = ''0400000US01'', t_name = ''Alabama'', t_geom = ()\<rparr>]
     ''state'' None 100)
   = [\<lparr>geo_id = ''0400000US01'', name = ''Alabama''\<rparr>,
      \<lparr>geo_id = ''0400000US06'', name = ''California''\<rparr>]
  \<and> sql_substring ''0400000US01'' 4 4 = ''0000''
  \<and> sorted [''Alabama'', ''California'']"
proof -
  let ?T = "[\<lparr>t_geo_id = ''0400000US06'', t_name = ''California'', t_geom = ()\<rparr>,
      \<lparr>t_geo_id = ''04000A0US06'', t_name = ''California'', t_geom = ()\<rparr>,
      \<lparr>t_geo_id = ''0500000US06037'', t_name = ''Los Angeles County'', t_geom = ()\<rparr>,
      \<lparr>t_geo_id = ''0400000US01'', t_name = ''Alabama'', t_geom = ()\<rparr>]"
  have wf: "\<forall>t \<in> set ?T. sql_substring (t_geo_id t) 8 2 = ''US''"
    by (simp add: sql_substring_def)
  have r: "lg_results (listGeographies ?T ''state'' None 100)
     = [\<lparr>geo_id = ''0400000US01'', name = ''Alabama''\<rparr>,
        \<lparr>geo_id = ''0400000US06'', name = ''California''\<rparr>]"
    by (simp add: list_eval)
  show ?thesis
    using listGeographies_canonical_sorted [OF wf, of "''state''" None 100] unfolding r by simp
qed

subsection \<open>Point lookup\<close>

lemma sql_like_percent: "sql_like s ''%''"
  by (induction s) auto

lemma sql_like_prefix: "\<not> has_wildcard p \<Longrightarrow> sql_like s (p @ ''%'') = prefix p s"
proof (induction p arbitrary: s)
  case Nil
  then show ?case by (simp add: sql_like_percent)
next
  case (Cons c p)
  then show ?case
    by (cases s) (auto simp: has_wildcard_def)
qed

lemma digits_no_wildcard: "list_all is_digit p \<Longrightarrow> \<not> has_wildcard p"
  by (induction p) (auto simp: has_wildcard_def is_digit_def)

lemma sql_like_level: "list_all is_digit p \<Longrightarrow> sql_like s (p @ ''%'') = prefix p s"
  by (simp add: sql_like_prefix digits_no_wildcard)

lemma sql_like_codes:
  "sql_like g ''150%'' = prefix ''150'' g"
  "sql_like g ''140%'' = prefix ''140'' g"
  "sql_like g ''860%'' = prefix ''860'' g"
  "sql_like g ''050%'' = prefix ''050'' g"
  "sql_like g ''310%'' = prefix ''310'' g"
  "sql_like g ''040%'' = prefix ''040'' g"
  using sql_like_level [of "''150''" g] sql_like_level [of "''140''" g]
    sql_like_level [of "''860''" g] sql_like_level [of "''050''" g]
    sql_like_level [of "''310''" g] sql_like_level [of "''040''" g]
  by (simp_all add: is_digit_def)

lemma lookup_priority_prefix:
  "lookup_priority g =
     (if prefix ''150'' g then 1
      else if prefix ''140'' g then 2
      else if prefix ''860'' g then 3
      else if prefix ''050'' g then 4
      else if prefix ''310'' g then 5
      else if prefix ''040'' g then 6
      else 7)"
  unfolding lookup_priority_def sql_like_codes ..

lemma lookupLocation_None:
  "lookupLocation sc tiger gl md lat lon tables = None \<longleftrightarrow> containing sc tiger lat lon = []"
proof -
  let ?s = "sort_key (\<lambda>t. lookup_priority (t_geo_id t)) (containing sc tiger lat lon)"
  have "length ?s = length (containing sc tiger lat lon)"
    by simp
  then have "?s = [] \<longleftrightarrow> containing sc tiger lat lon = []"
    by (metis length_0_conv)
  then show ?thesis
    by (auto simp: lookupLocation_def Let_def split: list.splits)
qed

lemma lookupLocation_Some:
  assumes "lookupLocation sc tiger gl md lat lon tables = Some r"
  defines "geo \<equiv> hd (sort_key (\<lambda>t. lookup_priority (t_geo_id t)) (containing sc tiger lat lon))"
  shows "containing sc tiger lat lon \<noteq> []"
    and "l_geo_id r = t_geo_id geo" and "l_name r = t_name geo"
    and "l_data r = map to_table_data (take 100 (data_rows md gl (t_geo_id geo) tables))"
proof -
  from assms(1) show "containing sc tiger lat lon \<noteq> []"
    using lookupLocation_None [of sc tiger gl md lat lon tables] by auto
  from assms(1) show "l_geo_id r = t_geo_id geo" and "l_name r = t_name geo"
    and "l_data r = map to_table_data (take 100 (data_rows md gl (t_geo_id geo) tables))"
    by (auto simp: lookupLocation_def Let_def geo_def split: list.splits)
qed

text \<open>
  C7. \<open>lookupLocation\<close> reports no match exactly when no area contains the point.
  Otherwise it selects an area that contains the point and that no other containing area
  beats in the fixed order block group, tract, ZIP, county, metro, state, anything else
  (read off the first three characters of the key); so a point inside a tract and inside
  no block group resolves to a tract, whatever county, metro or state contains it too.
\<close>

theorem lookupLocation_most_specific:
  "(lookupLocation sc tiger gl md lat lon tables = None
      \<longleftrightarrow> (\<forall>t \<in> set tiger. \<not> sc (t_geom t) lon lat))
 \<and> (\<forall>r. lookupLocation sc tiger gl md lat lon tables = Some r \<longrightarrow>
      (\<exists>t \<in> set tiger. sc (t_geom t) lon lat \<and> l_geo_id r = t_geo_id t \<and> l_name r = t_name t
         \<and> (\<forall>u \<in> set tiger. sc (t_geom u) lon lat \<longrightarrow>
               lookup_priority (t_geo_id t) \<le> lookup_priority (t_geo_id u))))
 \<and> (\<forall>g. lookup_priority g =
       (if prefix ''150'' g then 1
        else if prefix ''140'' g then 2
        else if prefix ''860'' g then 3
        else if prefix ''050'' g then 4
        else if prefix ''310'' g then 5
        else if prefix ''040'' g then 6
        else 7))
 \<and> (\<forall>r. lookupLocation sc tiger gl md lat lon tables = Some r \<longrightarrow>
        (\<exists>t \<in> set tiger. sc (t_geom t) lon lat \<and> prefix ''140'' (t_geo_id t)) \<longrightarrow>
        (\<forall>t \<in> set tiger. sc (t_geom t) lon lat \<longrightarrow> \<not> prefix ''150'' (t_geo_id t)) \<longrightarrow>
        prefix ''140'' (l_geo_id r))"
proof -
  let ?cs = "containing sc tiger lat lon"
  let ?f = "\<lambda>t. lookup_priority (t_geo_id t)"
  have mem: "t \<in> set ?cs \<longleftrightarrow> t \<in> set tiger \<and> sc (t_geom t) lon lat" for t
    by (simp add: containing_def)
  have none: "lookupLocation sc tiger gl md lat lon tables = None
      \<longleftrightarrow> (\<forall>t \<in> set tiger. \<not> sc (t_geom t) lon lat)"
    unfolding lookupLocation_None by (auto simp: containing_def filter_empty_conv)
  have some: "\<exists>t \<in> set tiger. sc (t_geom t) lon lat \<and> l_geo_id r = t_geo_id t \<and> l_name r = t_name t
         \<and> (\<forall>u \<in> set tiger. sc (t_geom u) lon lat \<longrightarrow> ?f t \<le> ?f u)"
    if r: "lookupLocation sc tiger gl md lat lon tables = Some r" for r
  proof -
    let ?geo = "hd (sort_key ?f ?cs)"
    from r have ne: "?cs \<noteq> []"
      by (rule lookupLocation_Some)
    then have "?geo \<in> set ?cs"
      by (rule hd_sort_key_mem)
    moreover have "l_geo_id r = t_geo_id ?geo" "l_name r = t_name ?geo"
      using r by (rule lookupLocation_Some)+
    moreover have "?f ?geo \<le> ?f u" if "u \<in> set ?cs" for u
      using that by (rule hd_sort_key_least)
    ultimately show ?thesis
      using mem by blast
  qed
  have tract: "prefix ''140'' (l_geo_id r)"
    if r: "lookupLocation sc tiger gl md lat lon tables = Some r"
      and t: "\<exists>t \<in> set tiger. sc (t_geom t) lon lat \<and> prefix ''140'' (t_geo_id t)"
      and b: "\<forall>t \<in> set tiger. sc (t_geom t) lon lat \<longrightarrow> \<not> prefix ''150'' (t_geo_id t)" for r
  proof -
    from some [OF r] obtain g where g: "g \<in> set tiger" "sc (t_geom g) lon lat"
      "l_geo_id r = t_geo_id g"
      and least: "\<forall>u \<in> set tiger. sc (t_geom u) lon lat \<longrightarrow> ?f g \<le> ?f u"
      by blast
    from t obtain u where u: "u \<in> set tiger" "sc (t_geom u) lon lat" "prefix ''140'' (t_geo_id u)"
      by blast
    from u b have "?f u = 2"
      by (simp add: lookup_priority_prefix)
    with least u have "?f g \<le> 2"
      by fastforce
    moreover from g b have "\<not> prefix ''150'' (t_geo_id g)"
      by blast
    ultimately have "prefix ''140'' (t_geo_id g)"
      by (simp add: lookup_priority_prefix split: if_splits)
    with g show ?thesis
      by simp
  qed
  show ?thesis
  proof (intro conjI allI impI)
    show "lookupLocation sc tiger gl md lat lon tables = None
      \<longleftrightarrow> (\<forall>t \<in> set tiger. \<not> sc (t_geom t) lon lat)"
      by (rule none)
  next
    fix r assume "lookupLocation sc tiger gl md lat lon tables = Some r"
    then show "\<exists>t \<in> set tiger. sc (t_geom t) lon lat \<and> l_geo_id r = t_geo_id t \<and> l_name r = t_name t
         \<and> (\<forall>u \<in> set tiger. sc (t_geom u) lon lat \<longrightarrow> ?f t \<le> ?f u)"
      by (rule some)
  next
    fix g show "lookup_priority g =
       (if prefix ''150'' g then 1
        else if prefix ''140'' g then 2
        else if prefix ''860'' g then 3
        else if prefix ''050'' g then 4
        else if prefix ''310'' g then 5
        else if prefix ''040'' g then 6
        else 7)"
      by (rule lookup_priority_prefix)
  next
    fix r
    assume "lookupLocation sc tiger gl md lat lon tables = Some r"
      and "\<exists>t \<in> set tiger. sc (t_geom t) lon lat \<and> prefix ''140'' (t_geo_id t)"
      and "\<forall>t \<in> set tiger. sc (t_geom t) lon lat \<longrightarrow> \<not> prefix ''150'' (t_geo_id t)"
    then show "prefix ''140'' (l_geo_id r)"
      by (rule tract)
  qed
qed

lemmas spatial_eval = lookupLocation_def containing_def box_contains_def lookup_priority_def
  data_rows_def table_filter_def to_table_data_def getSummaryLevel_def Let_def

theorem lookupLocation_most_specific_witness:
  "lookupLocation box_contains
     [\<lparr>t_geo_id = ''0400000US06'', t_name = ''California'', t_geom = (-125, 32, -114, 42)\<rparr>,
      \<lparr>t_geo_id = ''0500000US06037'', t_name = ''Los Angeles County'', t_geom = (-121, 32, -116, 37)\<rparr>,
      \<lparr>t_geo_id = ''1400000US06037701000'', t_name = ''Census Tract 7010'', t_geom = (-119, 33, -117, 35)\<rparr>,
      \<lparr>t_geo_id = ''0400000US32'', t_name = ''Nevada'', t_geom = (-120, 35, -114, 42)\<rparr>]
     ([] :: unit geo_lookup_row list) [] 34 (-118) None
   = Some \<lparr>l_geo_id = ''1400000US06037701000'', l_name = ''Census Tract 7010'',
            l_summary_level = ''140'', l_data = []\<rparr>
  \<and> prefix ''140'' ''1400000US06037701000''
  \<and> lookupLocation box_contains
     [\<lparr>t_geo_id = ''0400000US06'', t_name = ''California'', t_geom = (-125, 32, -114, 42)\<rparr>,
      \<lparr>t_geo_id = ''0500000US06037'', t_name = ''Los Angeles County'', t_geom = (-121, 32, -116, 37)\<rparr>,
      \<lparr>t_geo_id = ''1400000US06037701000'', t_name = ''Census Tract 7010'', t_geom = (-119, 33, -117, 35)\<rparr>,
      \<lparr>t_geo_id = ''0400000US32'', t_name = ''Nevada'', t_geom = (-120, 35, -114, 42)\<rparr>]
     ([] :: unit geo_lookup_row list) [] 10 10 None = None"
proof -
  let ?T = "[\<lparr>t_geo_id = ''0400000US06'', t_name = ''California'', t_geom = (-125, 32, -114, 42)\<rparr>,
      \<lparr>t_geo_id = ''0500000US06037'', t_name = ''Los Angeles County'', t_geom = (-121, 32, -116, 37)\<rparr>,
      \<lparr>t_geo_id = ''1400000US06037701000'', t_name = ''Census Tract 7010'', t_geom = (-119, 33, -117, 35)\<rparr>,
      \<lparr>t_geo_id = ''0400000US32'', t_name = ''Nevada'', t_geom = (-120::rat, 35::rat, -114::rat, 42::rat)\<rparr>]"
  let ?R = "\<lparr>l_geo_id = ''1400000US06037701000'', l_name = ''Census Tract 7010'',
            l_summary_level = ''140'', l_data = ([] :: unit table_data list)\<rparr>"
  have r: "lookupLocation box_contains ?T ([] :: unit geo_lookup_row list) [] 34 (-118) None = Some ?R"
    by (simp add: spatial_eval)
  have t: "\<exists>t \<in> set ?T. box_contains (t_geom t) (-118) 34 \<and> prefix ''140'' (t_geo_id t)"
    by (simp add: box_contains_def)
  have b: "\<forall>t \<in> set ?T. box_contains (t_geom t) (-118) 34 \<longrightarrow> \<not> prefix ''150'' (t_geo_id t)"
    by (simp add: box_contains_def)
  have n: "\<forall>t \<in> set ?T. \<not> box_contains (t_geom t) 10 10"
    by (simp add: box_contains_def)
  from lookupLocation_most_specific [of box_contains ?T "[] :: unit geo_lookup_row list" "[]" 34 "-118" None]
    r t b
  have p: "prefix ''140'' (l_geo_id ?R)"
    by blast
  from lookupLocation_most_specific [of box_contains ?T "[] :: unit geo_lookup_row list" "[]" 10 10 None] n
  have "lookupLocation box_contains ?T ([] :: unit geo_lookup_row list) [] 10 10 None = None"
    by blast
  with r p show ?thesis
    by simp
qed

text \<open>
  C8 (as the code has it). The data query ends in \<^verbatim>\<open>LIMIT 100\<close>: the result holds
  at most 100 rows, each of them a row of the catalog for the selected key that passes the
  table filter; every such row is in the result when the catalog has at most 100
  distinct ones.
\<close>

theorem lookupLocation_data:
  assumes r: "lookupLocation sc tiger gl md lat lon tables = Some r"
  shows "length (l_data r) \<le> 100
    \<and> (\<forall>d \<in> set (l_data r). \<exists>g \<in> set gl.
          g_geo_id g = l_geo_id r \<and> table_filter md tables g
        \<and> d = to_table_data (g_title g, g_universe g, g_labels_data g))
    \<and> (card ((\<lambda>g. (g_title g, g_universe g, g_labels_data g)) `
              {g \<in> set gl. g_geo_id g = l_geo_id r \<and> table_filter md tables g}) \<le> 100 \<longrightarrow>
        (\<forall>g \<in> set gl. g_geo_id g = l_geo_id r \<and> table_filter md tables g \<longrightarrow>
           to_table_data (g_title g, g_universe g, g_labels_data g) \<in> set (l_data r)))"
proof -
  let ?proj = "\<lambda>g. (g_title g, g_universe g, g_labels_data g)"
  let ?rows = "data_rows md gl (l_geo_id r) tables"
  let ?M = "{g \<in> set gl. g_geo_id g = l_geo_id r \<and> table_filter md tables g}"
  have d: "l_data r = map to_table_data (take 100 ?rows)"
    using lookupLocation_Some(2,4) [OF r] by simp
  have s: "set ?rows = ?proj ` ?M"
    by (auto simp: data_rows_def)
  have len: "length ?rows = card (?proj ` ?M)"
    unfolding s [symmetric] by (simp add: data_rows_def length_remdups_card_conv)
  have 1: "length (l_data r) \<le> 100"
    by (simp add: d)
  have 2: "\<exists>g \<in> set gl. g_geo_id g = l_geo_id r \<and> table_filter md tables g \<and> x = to_table_data (?proj g)"
    if "x \<in> set (l_data r)" for x
  proof -
    from that obtain y where "y \<in> set (take 100 ?rows)" "x = to_table_data y"
      unfolding d by auto
    then have "y \<in> ?proj ` ?M" "x = to_table_data y"
      using s in_set_takeD by fastforce+
    then show ?thesis
      by auto
  qed
  have 3: "to_table_data (?proj g) \<in> set (l_data r)"
    if "card (?proj ` ?M) \<le> 100" "g \<in> set gl" "g_geo_id g = l_geo_id r \<and> table_filter md tables g" for g
  proof -
    from that(1) have "take 100 ?rows = ?rows"
      by (simp add: len)
    moreover from that(2,3) have "?proj g \<in> set ?rows"
      unfolding s by blast
    ultimately show ?thesis
      unfolding d by simp
  qed
  show ?thesis
  proof (intro conjI ballI impI)
    show "length (l_data r) \<le> 100" by (rule 1)
  next
    fix x assume "x \<in> set (l_data r)"
    then show "\<exists>g \<in> set gl. g_geo_id g = l_geo_id r \<and> table_filter md tables g \<and> x = to_table_data (?proj g)"
      by (rule 2)
  next
    fix g assume "card (?proj ` ?M) \<le> 100" "g \<in> set gl" "g_geo_id g = l_geo_id r \<and> table_filter md tables g"
    then show "to_table_data (?proj g) \<in> set (l_data r)"
      by (rule 3)
  qed
qed

theorem lookupLocation_data_witness:
  "lookupLocation box_contains
     [\<lparr>t_geo_id = ''0400000US06'', t_name = ''California'', t_geom = (-125, 32, -114, 42)\<rparr>,
      \<lparr>t_geo_id = ''1400000US06037701000'', t_name = ''Census Tract 7010'', t_geom = (-119, 33, -117, 35)\<rparr>]
     [\<lparr>g_geo_id = ''1400000US06037701000'', g_title = ''B01001 Sex by Age'',
        g_universe = ''Total population'', g_labels_data = (1::nat)\<rparr>,
      \<lparr>g_geo_id = ''1400000US06037701000'', g_title = ''B19013 Median Household Income'',
        g_universe = ''Households'', g_labels_data = 2\<rparr>,
      \<lparr>g_geo_id = ''0400000US06'', g_title = ''B01001 Sex by Age'',
        g_universe = ''Total population'', g_labels_data = 3\<rparr>]
     [\<lparr>m_table_id = ''B01001'', m_unique_id = ''B01001_001'', m_label = ''Total'',
        m_title = ''B01001 Sex by Age''\<rparr>,
      \<lparr>m_table_id = ''B19013'', m_unique_id = ''B19013_001'', m_label = ''Median income'',
        m_title = ''B19013 Median Household Income''\<rparr>]
     34 (-118) (Some [''B01001''])
   = Some \<lparr>l_geo_id = ''1400000US06037701000'', l_name = ''Census Tract 7010'',
            l_summary_level = ''140'',
            l_data = [\<lparr>d_table_id = ''B01001'', d_title = ''B01001 Sex by Age'',
                       d_universe = ''Total population'', d_labels_data = 1\<rparr>]\<rparr>
  \<and> to_table_data (''B01001 Sex by Age'', ''Total population'', 1::nat)
      \<in> set [\<lparr>d_table_id = ''B01001'', d_title = ''B01001 Sex by Age'',
                d_universe = ''Total population'', d_labels_data = 1\<rparr>]"
proof -
  let ?T = "[\<lparr>t_geo_id = ''0400000US06'', t_name = ''California'', t_geom = (-125, 32, -114, 42)\<rparr>,
      \<lparr>t_geo_id = ''1400000US06037701000'', t_name = ''Census Tract 7010'',
        t_geom = (-119::rat, 33::rat, -117::rat, 35::rat)\<rparr>]"
  let ?g1 = "\<lparr>g_geo_id = ''1400000US06037701000'', g_title = ''B01001 Sex by Age'',
        g_universe = ''Total population'', g_labels_data = (1::nat)\<rparr>"
  let ?G = "[?g1,
      \<lparr>g_geo_id = ''1400000US06037701000'', g_title = ''B19013 Median Household Income'',
        g_universe = ''Households'', g_labels_data = 2\<rparr>,
      \<lparr>g_geo_id = ''0400000US06'', g_title = ''B01001 Sex by Age'',
        g_universe = ''Total population'', g_labels_data = 3\<rparr>]"
  let ?M = "[\<lparr>m_table_id = ''B01001'', m_unique_id = ''B01001_001'', m_label = ''Total'',
        m_title = ''B01001 Sex by Age''\<rparr>,
      \<lparr>m_table_id = ''B19013'', m_unique_id = ''B19013_001'', m_label = ''Median income'',
        m_title = ''B19013 Median Household Income''\<rparr>]"
  let ?R = "\<lparr>l_geo_id = ''1400000US06037701000'', l_name = ''Census Tract 7010'',
            l_summary_level = ''140'',
            l_data = [\<lparr>d_table_id = ''B01001'', d_title = ''B01001 Sex by Age'',
                       d_universe = ''Total population'', d_labels_data = (1::nat)\<rparr>]\<rparr>"
  let ?S = "{g \<in> set ?G. g_geo_id g = l_geo_id ?R \<and> table_filter ?M (Some [''B01001'']) g}"
  have r: "lookupLocation box_contains ?T ?G ?M 34 (-118) (Some [''B01001'']) = Some ?R"
    by (simp add: spatial_eval)
  have "card ((\<lambda>g. (g_title g, g_universe g, g_labels_data g)) ` ?S) \<le> card ?S"
    by (rule card_image_le) simp
  also have "\<dots> \<le> card (set ?G)"
    by (rule card_mono) auto
  also have "\<dots> \<le> length ?G"
    by (rule card_length)
  finally have c: "card ((\<lambda>g. (g_title g, g_universe g, g_labels_data g)) ` ?S) \<le> 100"
    by simp
  have g: "?g1 \<in> set ?G" "g_geo_id ?g1 = l_geo_id ?R \<and> table_filter ?M (Some [''B01001'']) ?g1"
    by (simp_all add: table_filter_def)
  from lookupLocation_data [OF r] c g
  have "to_table_data (g_title ?g1, g_universe ?g1, g_labels_data ?g1) \<in> set (l_data ?R)"
    by blast
  with r show ?thesis
    by simp
qed

text \<open>
  C8 as stated fails: with 101 distinct rows of the catalog for the selected tract, and no
  table filter, the result holds the first 100 and not the last one.
\<close>

theorem lookupLocation_data_counterexample:
  "map_option (\<lambda>r. map d_labels_data (l_data r))
     (lookupLocation box_contains
        [\<lparr>t_geo_id = ''1400000US06037701000'', t_name = ''Census Tract 7010'',
           t_geom = (-119, 33, -117, 35)\<rparr>]
        (map (\<lambda>i. \<lparr>g_geo_id = ''1400000US06037701000'', g_title = ''B01001 Sex by Age'',
                    g_universe = ''Total population'', g_labels_data = i\<rparr>) [0..<101])
        [] 34 (-118) None)
   = Some [0..<100]
  \<and> \<lparr>g_geo_id = ''1400000US06037701000'', g_title = ''B01001 Sex by Age'',
      g_universe = ''Total population'', g_labels_data = 100\<rparr>
    \<in> set (map (\<lambda>i. \<lparr>g_geo_id = ''1400000US06037701000'', g_title = ''B01001 Sex by Age'',
                    g_universe = ''Total population'', g_labels_data = i\<rparr>) [0..<101])
  \<and> (100::nat) \<notin> set [0..<100]"
proof -
  let ?k = "''1400000US06037701000''"
  let ?mk = "\<lambda>i::nat. \<lparr>g_geo_id = ?k, g_title = ''B01001 Sex by Age'',
                    g_universe = ''Total population'', g_labels_data = i\<rparr>"
  let ?f = "\<lambda>i::nat. (''B01001 Sex by Age'', ''Total population'', i)"
  let ?T = "[\<lparr>t_geo_id = ?k, t_name = ''Census Tract 7010'',
           t_geom = (-119::rat, 33::rat, -117::rat, 35::rat)\<rparr>]"
  have "distinct (map ?f [0..<101])"
    by (simp add: distinct_map inj_on_def)
  then have rows: "data_rows [] (map ?mk [0..<101]) ?k None = map ?f [0..<101]"
    by (simp add: data_rows_def table_filter_def filter_map comp_def)
  have "take 100 (map ?f [0..<101]) = map ?f [0..<100]"
    by (simp add: take_map)
  then have "map d_labels_data (map to_table_data (take 100 (data_rows [] (map ?mk [0..<101]) ?k None)))
      = [0..<100]"
    unfolding rows by (simp add: comp_def to_table_data_def)
  moreover have "lookupLocation box_contains ?T (map ?mk [0..<101]) [] 34 (-118) None
      = Some \<lparr>l_geo_id = ?k, l_name = ''Census Tract 7010'', l_summary_level = ''140'',
          l_data = map to_table_data (take 100 (data_rows [] (map ?mk [0..<101]) ?k None))\<rparr>"
    by (simp add: lookupLocation_def containing_def box_contains_def getSummaryLevel_def Let_def)
  ultimately show ?thesis
    by simp
qed

section \<open>Properties of the ranking engine\<close>

lemma denominatorIdsOf_None:
  "denominatorIdsOf a = None \<longleftrightarrow> a = None \<or> a = Some (One [])"
  by (auto simp: denominatorIdsOf_def split: option.splits id_arg.splits)

lemma rank_rate:
  assumes "denominatorIdsOf (denominator_id p) = Some dIds"
    and "rankAreasByMetric tiger acs md p = Inr res"
  shows "results res = take (limitOf p)
           (rate_rows tiger acs (metricIdsOf (metric_id p)) dIds (minPopulationOf p)
              (populationGroupOf p) (summary_level p) (state_fips p) (orderOf p))"
    and "total_matches res = rate_count acs (metricIdsOf (metric_id p)) dIds (minPopulationOf p)
              (populationGroupOf p) (summary_level p) (state_fips p)"
  using assms by (auto simp: rankAreasByMetric_def Let_def split: if_splits)

lemma rank_sum:
  assumes "denominatorIdsOf (denominator_id p) = None"
    and "isCompoundOf (metricIdsOf (metric_id p)) None"
    and "rankAreasByMetric tiger acs md p = Inr res"
  shows "results res = take (limitOf p)
           (sum_rows tiger acs (metricIdsOf (metric_id p))
              (populationGroupOf p) (summary_level p) (state_fips p) (orderOf p))"
    and "total_matches res = sum_count acs (metricIdsOf (metric_id p))
              (populationGroupOf p) (summary_level p) (state_fips p)"
  using assms by (auto simp: rankAreasByMetric_def Let_def split: if_splits)

lemma rank_direct:
  assumes "denominatorIdsOf (denominator_id p) = None"
    and "\<not> isCompoundOf (metricIdsOf (metric_id p)) None"
    and "rankAreasByMetric tiger acs md p = Inr res"
  shows "results res = take (limitOf p)
           (direct_rows tiger acs
              (direct_where (hd (metricIdsOf (metric_id p))) (percentileMinOf p)
                 (percentileMaxOf p) (populationGroupOf p) (summary_level p) (state_fips p))
              (orderOf p))"
    and "total_matches res = length
           (filter (direct_where (hd (metricIdsOf (metric_id p))) (percentileMinOf p)
                 (percentileMaxOf p) (populationGroupOf p) (summary_level p) (state_fips p)) acs)"
  using assms by (auto simp: rankAreasByMetric_def Let_def split: if_splits)

lemma rate_rows_unit:
  "r \<in> set (rate_rows tiger acs mIds dIds mp pg sl sf ord)
     \<Longrightarrow> r_unit r = ''percent'' \<and> r_national_percentile r = None"
  by (auto simp: rate_rows_def)

lemma sum_rows_unit:
  "r \<in> set (sum_rows tiger acs mIds pg sl sf ord)
     \<Longrightarrow> r_unit r = ''count'' \<and> r_national_percentile r = None"
  by (auto simp: sum_rows_def Let_def)

lemma direct_rows_unit:
  "r \<in> set (direct_rows tiger acs wh ord)
     \<Longrightarrow> r_unit r = ''count'' \<and> r_national_percentile r \<noteq> None"
  by (auto simp: direct_rows_def)

lemma direct_rows_where:
  "r \<in> set (direct_rows tiger acs wh ord)
     \<Longrightarrow> \<exists>q \<in> set acs. wh q \<and> r_geo_id r = p_geo_id q
           \<and> r_national_percentile r = Some (p_national_percentile q)
           \<and> r_value r = Some (of_int (p_estimate q))"
  by (auto simp: direct_rows_def)

lemma rank_Inr_nonempty:
  "rankAreasByMetric tiger acs md p = Inr res \<Longrightarrow> metricIdsOf (metric_id p) \<noteq> []"
  by (auto simp: rankAreasByMetric_def Let_def split: if_splits)

text \<open>
  C6. Every row of a request with no denominator has the unit \<^verbatim>\<open>count\<close>, every
  row of a request with a denominator has the unit \<^verbatim>\<open>percent\<close> and no percentile,
  the rows of a request with several metric ids have no percentile, and the rows of a
  single-metric request with no denominator all carry one. A denominator is absent when
  the property is left out or is the empty string, as the code tests it.
\<close>

theorem rank_units:
  assumes ok: "rankAreasByMetric tiger acs md p = Inr res"
  shows "(denominatorIdsOf (denominator_id p) = None
            \<longleftrightarrow> denominator_id p = None \<or> denominator_id p = Some (One []))
    \<and> (denominatorIdsOf (denominator_id p) = None \<longrightarrow>
          (\<forall>r \<in> set (results res). r_unit r = ''count''))
    \<and> (denominatorIdsOf (denominator_id p) \<noteq> None \<longrightarrow>
          (\<forall>r \<in> set (results res). r_unit r = ''percent'' \<and> r_national_percentile r = None))
    \<and> (length (metricIdsOf (metric_id p)) > 1 \<longrightarrow>
          (\<forall>r \<in> set (results res). r_national_percentile r = None))
    \<and> (denominatorIdsOf (denominator_id p) = None \<and> length (metricIdsOf (metric_id p)) = 1 \<longrightarrow>
          (\<forall>r \<in> set (results res). r_national_percentile r \<noteq> None))"
proof -
  let ?m = "metricIdsOf (metric_id p)" and ?d = "denominatorIdsOf (denominator_id p)"
  have rate: "r_unit r = ''percent'' \<and> r_national_percentile r = None"
    if "?d \<noteq> None" "r \<in> set (results res)" for r
  proof -
    from that(1) obtain dIds where d: "?d = Some dIds"
      by auto
    from that(2) have "r \<in> set (rate_rows tiger acs ?m dIds (minPopulationOf p)
              (populationGroupOf p) (summary_level p) (state_fips p) (orderOf p))"
      unfolding rank_rate(1) [OF d ok] by (rule in_set_takeD)
    then show ?thesis
      by (rule rate_rows_unit)
  qed
  have sum: "r_unit r = ''count'' \<and> r_national_percentile r = None"
    if "?d = None" "length ?m > 1" "r \<in> set (results res)" for r
  proof -
    from that(2) have c: "isCompoundOf ?m None"
      by (simp add: isCompoundOf_def)
    from that(3) have "r \<in> set (sum_rows tiger acs ?m
              (populationGroupOf p) (summary_level p) (state_fips p) (orderOf p))"
      unfolding rank_sum(1) [OF that(1) c ok] by (rule in_set_takeD)
    then show ?thesis
      by (rule sum_rows_unit)
  qed
  have direct: "r_unit r = ''count'' \<and> r_national_percentile r \<noteq> None"
    if "?d = None" "length ?m = 1" "r \<in> set (results res)" for r
  proof -
    from that(2) have c: "\<not> isCompoundOf ?m None"
      by (simp add: isCompoundOf_def)
    from that(3) show ?thesis
      unfolding rank_direct(1) [OF that(1) c ok] by (auto dest!: in_set_takeD direct_rows_unit)
  qed
  have len: "length ?m = 1 \<or> length ?m > 1"
    using rank_Inr_nonempty [OF ok] by (cases ?m) auto
  show ?thesis
  proof (intro conjI impI ballI)
    show "?d = None \<longleftrightarrow> denominator_id p = None \<or> denominator_id p = Some (One [])"
      by (rule denominatorIdsOf_None)
  next
    fix r assume "?d = None" "r \<in> set (results res)"
    with len sum direct show "r_unit r = ''count''"
      by blast
  next
    fix r assume "?d \<noteq> None" "r \<in> set (results res)"
    then show "r_unit r = ''percent''" "r_national_percentile r = None"
      using rate by blast+
  next
    fix r assume "length ?m > 1" "r \<in> set (results res)"
    with rate sum show "r_national_percentile r = None"
      by (cases "?d = None") blast+
  next
    fix r assume "?d = None \<and> length ?m = 1" "r \<in> set (results res)"
    with direct show "r_national_percentile r \<noteq> None"
      by blast
  qed
qed

lemma example_rate: "rankAreasByMetric example_tiger example_acs [] example_request =
   Inr \<lparr>metric = ''Sum of 2 metrics (A, B)'',
        results =
          [\<lparr>r_geo_id = ''0500000US06037'', r_name = ''Los Angeles County'',
              r_value = Some (5 / 2), r_unit = ''percent'',
              r_national_percentile = None\<rparr>,
           \<lparr>r_geo_id = ''0500000US06001'', r_name = ''0500000US06001'',
              r_value = Some (33 / 100), r_unit = ''percent'',
              r_national_percentile = None\<rparr>],
        total_matches = 2\<rparr>"
  by code_simp

lemma example_sum: "rankAreasByMetric example_tiger example_acs []
     (example_request\<lparr>denominator_id := None\<rparr>) =
   Inr \<lparr>metric = ''Sum of 2 metrics (A, B)'',
        results =
          [\<lparr>r_geo_id = ''0500000US06037'', r_name = ''Los Angeles County'',
              r_value = Some 500, r_unit = ''count'',
              r_national_percentile = None\<rparr>,
           \<lparr>r_geo_id = ''0500000US06001'', r_name = ''0500000US06001'',
              r_value = Some 100, r_unit = ''count'',
              r_national_percentile = None\<rparr>],
        total_matches = 2\<rparr>"
  by code_simp

lemma example_direct: "rankAreasByMetric example_tiger example_acs []
     (example_request\<lparr>denominator_id := None, metric_id := One ''A'', summary_level := None\<rparr>) =
  Inr \<lparr>metric = ''A'',
        results =
          [\<lparr>r_geo_id = ''0400000US06'', r_name = ''California'',
              r_value = Some 7000, r_unit = ''count'',
              r_national_percentile = Some 1\<rparr>,
           \<lparr>r_geo_id = ''0500000US06037'', r_name = ''Los Angeles County'',
              r_value = Some 300, r_unit = ''count'',
              r_national_percentile = Some (9 / 10)\<rparr>,
           \<lparr>r_geo_id = ''0500000US06001'', r_name = ''0500000US06001'',
              r_value = Some 100, r_unit = ''count'',
              r_national_percentile = Some (1 / 2)\<rparr>],
        total_matches = 3\<rparr>"
  by code_simp

theorem rank_units_witness:
  "rankAreasByMetric example_tiger example_acs [] example_request =
     Inr \<lparr>metric = ''Sum of 2 metrics (A, B)'',
        results =
          [\<lparr>r_geo_id = ''0500000US06037'', r_name = ''Los Angeles County'',
              r_value = Some (5 / 2), r_unit = ''percent'',
              r_national_percentile = None\<rparr>,
           \<lparr>r_geo_id = ''0500000US06001'', r_name = ''0500000US06001'',
              r_value = Some (33 / 100), r_unit = ''percent'',
              r_national_percentile = None\<rparr>],
        total_matches = 2\<rparr>
   \<and> list_all (\<lambda>r. r_unit r = ''percent'' \<and> r_national_percentile r = None)
       [\<lparr>r_geo_id = ''0500000US06037'', r_name = ''Los Angeles County'',
              r_value = Some (5 / 2), r_unit = ''percent'',
              r_national_percentile = None\<rparr>,
           \<lparr>r_geo_id = ''0500000US06001'', r_name = ''0500000US06001'',
              r_value = Some (33 / 100), r_unit = ''percent'',
              r_national_percentile = None\<rparr>]"
proof -
  have d: "denominatorIdsOf (denominator_id example_request) \<noteq> None"
    by (simp add: example_request_def denominatorIdsOf_def)
  from rank_units [OF example_rate] d show ?thesis
    unfolding example_rate by (simp add: list_all_iff)
qed

lemma band_update [simp]:
  "orderOf (p\<lparr>percentile_min := a, percentile_max := b\<rparr>) = orderOf p"
  "populationGroupOf (p\<lparr>percentile_min := a, percentile_max := b\<rparr>) = populationGroupOf p"
  "minPopulationOf (p\<lparr>percentile_min := a, percentile_max := b\<rparr>) = minPopulationOf p"
  "limitOf (p\<lparr>percentile_min := a, percentile_max := b\<rparr>) = limitOf p"
  by (simp_all add: orderOf_def populationGroupOf_def minPopulationOf_def limitOf_def)

lemma direct_rows_band:
  assumes "r \<in> set (direct_rows tiger acs (direct_where m pmin pmax pg sl sf) ord)"
  shows "\<exists>x. r_national_percentile r = Some x \<and> pmin \<le> x \<and> x \<le> pmax"
  using direct_rows_where [OF assms] by (auto simp: direct_where_def)

text \<open>
  C10. With a denominator, or with several metric ids, the whole result of
  \<open>rankAreasByMetric\<close> (label, rows, total) is the same for any two percentile bands;
  in the single-metric branch with no denominator every returned row lies in the band.
\<close>

theorem percentile_band_ignored:
  "(denominatorIdsOf (denominator_id p) \<noteq> None \<or> length (metricIdsOf (metric_id p)) > 1 \<longrightarrow>
      rankAreasByMetric tiger acs md (p\<lparr>percentile_min := a, percentile_max := b\<rparr>)
      = rankAreasByMetric tiger acs md (p\<lparr>percentile_min := c, percentile_max := d\<rparr>))
 \<and> (denominatorIdsOf (denominator_id p) = None \<and> length (metricIdsOf (metric_id p)) = 1 \<longrightarrow>
      (\<forall>res. rankAreasByMetric tiger acs md p = Inr res \<longrightarrow>
         (\<forall>r \<in> set (results res). \<exists>x. r_national_percentile r = Some x
             \<and> percentileMinOf p \<le> x \<and> x \<le> percentileMaxOf p)))"
proof (intro conjI impI allI ballI)
  assume "denominatorIdsOf (denominator_id p) \<noteq> None \<or> length (metricIdsOf (metric_id p)) > 1"
  then show "rankAreasByMetric tiger acs md (p\<lparr>percentile_min := a, percentile_max := b\<rparr>)
      = rankAreasByMetric tiger acs md (p\<lparr>percentile_min := c, percentile_max := d\<rparr>)"
    by (auto simp: rankAreasByMetric_def Let_def isCompoundOf_def split: option.splits)
next
  fix res r
  assume b: "denominatorIdsOf (denominator_id p) = None \<and> length (metricIdsOf (metric_id p)) = 1"
    and ok: "rankAreasByMetric tiger acs md p = Inr res" and r: "r \<in> set (results res)"
  from b have c: "\<not> isCompoundOf (metricIdsOf (metric_id p)) None"
    by (simp add: isCompoundOf_def)
  from b have d: "denominatorIdsOf (denominator_id p) = None"
    by simp
  from r show "\<exists>x. r_national_percentile r = Some x
             \<and> percentileMinOf p \<le> x \<and> x \<le> percentileMaxOf p"
    unfolding rank_direct(1) [OF d c ok] by (auto dest!: in_set_takeD direct_rows_band)
qed

theorem percentile_band_ignored_witness:
  "rankAreasByMetric example_tiger example_acs []
     (example_request\<lparr>percentile_min := Some (9 / 10), percentile_max := Some 1\<rparr>)
   = rankAreasByMetric example_tiger example_acs []
     (example_request\<lparr>percentile_min := Some 0, percentile_max := Some (1 / 10)\<rparr>)
 \<and> rankAreasByMetric example_tiger example_acs []
     (example_request\<lparr>denominator_id := None, percentile_min := Some (9 / 10), percentile_max := Some 1\<rparr>)
   = rankAreasByMetric example_tiger example_acs []
     (example_request\<lparr>denominator_id := None, percentile_min := Some 0, percentile_max := Some (1 / 10)\<rparr>)"
proof -
  have 1: "denominatorIdsOf (denominator_id example_request) \<noteq> None
      \<or> length (metricIdsOf (metric_id example_request)) > 1"
    by (simp add: example_request_def denominatorIdsOf_def)
  have 2: "denominatorIdsOf (denominator_id (example_request\<lparr>denominator_id := None\<rparr>)) \<noteq> None
      \<or> length (metricIdsOf (metric_id (example_request\<lparr>denominator_id := None\<rparr>))) > 1"
    by (simp add: example_request_def metricIdsOf_def)
  from percentile_band_ignored [where p = example_request and tiger = example_tiger
      and acs = example_acs and md = "[]" and a = "Some (9 / 10)" and b = "Some 1"
      and c = "Some 0" and d = "Some (1 / 10)"] 1
    percentile_band_ignored [where p = "example_request\<lparr>denominator_id := None\<rparr>"
      and tiger = example_tiger and acs = example_acs and md = "[]" and a = "Some (9 / 10)"
      and b = "Some 1" and c = "Some 0" and d = "Some (1 / 10)"] 2
  show ?thesis
    by blast
qed

lemma direct_rows_cong:
  assumes "\<And>q. q \<in> set acs \<Longrightarrow> wh q = wh' q"
  shows "direct_rows tiger acs wh ord = direct_rows tiger acs wh' ord"
proof -
  have "filter (\<lambda>(p, t). wh p)
          (concat (map (\<lambda>p. map (\<lambda>t. (p, t)) (left_join_name tiger (p_geo_id p))) acs))
      = filter (\<lambda>(p, t). wh' p)
          (concat (map (\<lambda>p. map (\<lambda>t. (p, t)) (left_join_name tiger (p_geo_id p))) acs))"
    by (rule filter_cong) (auto simp: assms)
  then show ?thesis
    by (simp add: direct_rows_def)
qed

text \<open>
  C9. Where every national percentile of the catalog lies in [0, 1], a single-metric
  request with no denominator and the band 0 to 1 returns the rows, in the order, of the
  same query with the two percentile conditions taken out, and counts the same matches.
\<close>

theorem full_band_is_unfiltered:
  assumes inv: "\<forall>q \<in> set acs. 0 \<le> p_national_percentile q \<and> p_national_percentile q \<le> 1"
    and den: "denominatorIdsOf (denominator_id p) = None"
    and single: "length (metricIdsOf (metric_id p)) = 1"
    and band: "percentileMinOf p = 0 \<and> percentileMaxOf p = 1"
  shows "\<exists>res. rankAreasByMetric tiger acs md p = Inr res
    \<and> results res = unfiltered_percentile_query tiger acs p
    \<and> set (results res) = set (unfiltered_percentile_query tiger acs p)
    \<and> total_matches res = length
        (filter (unfiltered_where (hd (metricIdsOf (metric_id p))) (populationGroupOf p)
           (summary_level p) (state_fips p)) acs)"
proof -
  let ?m = "hd (metricIdsOf (metric_id p))"
  let ?wh = "direct_where ?m (percentileMinOf p) (percentileMaxOf p) (populationGroupOf p)
      (summary_level p) (state_fips p)"
  let ?un = "unfiltered_where ?m (populationGroupOf p) (summary_level p) (state_fips p)"
  from single have ne: "metricIdsOf (metric_id p) \<noteq> []" and c: "\<not> isCompoundOf (metricIdsOf (metric_id p)) None"
    by (auto simp: isCompoundOf_def)
  with den obtain res where ok: "rankAreasByMetric tiger acs md p = Inr res"
    by (auto simp: rankAreasByMetric_def Let_def)
  have eq: "?wh q = ?un q" if "q \<in> set acs" for q
    using that inv band by (auto simp: direct_where_def unfiltered_where_def)
  have rows: "results res = unfiltered_percentile_query tiger acs p"
    unfolding rank_direct(1) [OF den c ok] unfiltered_percentile_query_def
    using direct_rows_cong [of acs ?wh ?un tiger "orderOf p"] eq by simp
  have "filter ?wh acs = filter ?un acs"
    by (rule filter_cong) (auto simp: eq)
  then have total: "total_matches res = length (filter ?un acs)"
    unfolding rank_direct(2) [OF den c ok] by simp
  from ok rows total show ?thesis
    by simp
qed

theorem full_band_is_unfiltered_witness:
  "rankAreasByMetric example_tiger example_acs []
     (example_request\<lparr>denominator_id := None, metric_id := One ''A'', summary_level := None\<rparr>)
   = Inr \<lparr>metric = ''A'',
        results = unfiltered_percentile_query example_tiger example_acs
          (example_request\<lparr>denominator_id := None, metric_id := One ''A'', summary_level := None\<rparr>),
        total_matches = 3\<rparr>"
proof -
  let ?p = "example_request\<lparr>denominator_id := None, metric_id := One ''A'', summary_level := None\<rparr>"
  have inv: "\<forall>q \<in> set example_acs. 0 \<le> p_national_percentile q \<and> p_national_percentile q \<le> 1"
    by (simp add: example_acs_def)
  have den: "denominatorIdsOf (denominator_id ?p) = None"
    by (simp add: denominatorIdsOf_def)
  have single: "length (metricIdsOf (metric_id ?p)) = 1"
    by (simp add: metricIdsOf_def)
  have band: "percentileMinOf ?p = 0 \<and> percentileMaxOf ?p = 1"
    by (simp add: percentileMinOf_def percentileMaxOf_def example_request_def)
  from full_band_is_unfiltered [OF inv den single band, of example_tiger "[]"] show ?thesis
    unfolding example_direct by auto
qed

subsection \<open>The rate branch\<close>










subsection \<open>The total match count\<close>













lemma limit_update [simp]:
  "orderOf (p\<lparr>limit := l\<rparr>) = orderOf p"
  "percentileMinOf (p\<lparr>limit := l\<rparr>) = percentileMinOf p"
  "percentileMaxOf (p\<lparr>limit := l\<rparr>) = percentileMaxOf p"
  "populationGroupOf (p\<lparr>limit := l\<rparr>) = populationGroupOf p"
  "minPopulationOf (p\<lparr>limit := l\<rparr>) = minPopulationOf p"
  by (simp_all add: orderOf_def percentileMinOf_def percentileMaxOf_def populationGroupOf_def
      minPopulationOf_def)








end
